theory Spec2Isabelle
  imports Complex_Main "HOL-Library.Word" "HOL-Library.AList"
begin

section \<open>TrustAid chat widget: values of the JavaScript runtime\<close>

text \<open>
  The repository holds two versions of the widget: \<^verbatim>\<open>trustaid-frontend/src/App.tsx\<close> and an
  earlier single-page version, \<^verbatim>\<open>unnamed/part_002\<close>. Both define \<^verbatim>\<open>send\<close>,
  \<^verbatim>\<open>formatAssistantText\<close> and \<^verbatim>\<open>mockResponse\<close>, with different bodies. A definition
  without suffix embeds the function of \<^verbatim>\<open>App.tsx\<close>; the suffix \<^verbatim>\<open>_part002\<close> marks the
  function of the same name in \<^verbatim>\<open>unnamed/part_002\<close>. \<^verbatim>\<open>formatCell\<close> and
  \<^verbatim>\<open>rowsToObjects\<close> are the same text in both files.
\<close>

subsection \<open>Strings\<close>

text \<open>
  A JavaScript string is a sequence of 16-bit code units; \<^verbatim>\<open>length\<close>, indexing,
  \<^verbatim>\<open>trim\<close> and regular expressions without the \<^verbatim>\<open>u\<close> flag all count code units.
  \<open>str\<close> embeds an ASCII literal; the few characters of the source beyond ASCII are
  written by their code unit.
\<close>

type_synonym jsstring = "16 word list"

definition str :: "string \<Rightarrow> jsstring" where
  "str s = map of_char s"

definition apostrophe :: jsstring where
  \<comment> \<open>U+2019, right single quotation mark\<close>
  "apostrophe = [0x2019]"

definition en_dash :: jsstring where
  "en_dash = [0x2013]"

definition em_dash :: jsstring where
  "em_dash = [0x2014]"

definition greater_equal_sign :: jsstring where
  "greater_equal_sign = [0x2265]"

definition newline :: jsstring where
  "newline = [0x0A]"

text \<open>
  \<^verbatim>\<open>String.prototype.trim\<close> removes leading and trailing WhiteSpace and LineTerminator
  code points (ECMA-262, 22.1.3.32): TAB, LF, VT, FF, CR, SP, NBSP, the Unicode
  space separators, LS, PS and the byte order mark. All of them are single code units.
\<close>

definition is_ws :: "16 word \<Rightarrow> bool" where
  "is_ws c = (c \<in> set [0x9, 0xA, 0xB, 0xC, 0xD, 0x20, 0xA0, 0x1680, 0x2000, 0x2001,
      0x2002, 0x2003, 0x2004, 0x2005, 0x2006, 0x2007, 0x2008, 0x2009, 0x200A, 0x2028,
      0x2029, 0x202F, 0x205F, 0x3000, 0xFEFF])"

definition trim :: "jsstring \<Rightarrow> jsstring" where
  "trim s = rev (dropWhile is_ws (rev (dropWhile is_ws s)))"

text \<open>The decimal digits of a non-negative integer, as a template literal prints it.\<close>

function decimal :: "nat \<Rightarrow> jsstring" where
  "decimal n = (if n < 10 then [0x30 + of_nat n]
                else decimal (n div 10) @ [0x30 + of_nat (n mod 10)])"
  by pat_completeness auto
termination
  by (relation "measure id") auto

declare decimal.simps [simp del]

text \<open>\<^verbatim>\<open>Array.prototype.join\<close> on an array of strings.\<close>

fun join :: "jsstring \<Rightarrow> jsstring list \<Rightarrow> jsstring" where
  "join sep [] = []"
| "join sep [x] = x"
| "join sep (x # y # ys) = x @ sep @ join sep (y # ys)"

subsection \<open>Values of type any\<close>

text \<open>
  The payloads are untyped (\<^verbatim>\<open>any\<close>): whatever \<^verbatim>\<open>res.json()\<close> parsed, or an object
  literal of the demo responder. An object is the list of its own properties in insertion
  order, each name once. Numbers are carried as reals: the program never computes with
  them in the functions embedded here, it tests them for zero and prints them.
\<close>

datatype jsval =
    JUndefined
  | JNull
  | JBool bool
  | JNum real
  | JStr jsstring
  | JArr "jsval list"
  | JObj "(jsstring \<times> jsval) list"

text \<open>The only exception the embedded expressions can raise themselves.\<close>

datatype exn = TypeError

text \<open>
  What the runtime does with a number is not code of this repository and depends on the
  locale: \<^verbatim>\<open>Number::toString\<close> and \<^verbatim>\<open>new Intl.NumberFormat().format\<close> are parameters.
\<close>

record runtime =
  number_to_string :: "real \<Rightarrow> jsstring"
  number_format :: "real \<Rightarrow> jsstring"

definition and_then :: "exn + 'a \<Rightarrow> ('a \<Rightarrow> exn + 'b) \<Rightarrow> exn + 'b" where
  "and_then m f = (case m of Inl e \<Rightarrow> Inl e | Inr v \<Rightarrow> f v)"

fun truthy :: "jsval \<Rightarrow> bool" where
  "truthy JUndefined = False"
| "truthy JNull = False"
| "truthy (JBool b) = b"
| "truthy (JNum x) = (x \<noteq> 0)"
| "truthy (JStr s) = (s \<noteq> [])"
| "truthy (JArr xs) = True"
| "truthy (JObj ps) = True"

text \<open>\<^verbatim>\<open>a || b\<close>\<close>

definition or_else :: "jsval \<Rightarrow> jsval \<Rightarrow> jsval" where
  "or_else a b = (if truthy a then a else b)"

text \<open>
  \<^verbatim>\<open>v.k\<close> for the data properties this program reads (\<^verbatim>\<open>kind\<close>, \<^verbatim>\<open>answer\<close>,
  \<^verbatim>\<open>steps\<close>, \<^verbatim>\<open>title\<close>, \<^verbatim>\<open>columns\<close>, \<^verbatim>\<open>rows\<close>): no built-in prototype defines
  one of these names, so a primitive or an array yields \<^verbatim>\<open>undefined\<close>, and
  \<^verbatim>\<open>null\<close> and \<^verbatim>\<open>undefined\<close> raise.
\<close>

fun get_prop :: "jsval \<Rightarrow> jsstring \<Rightarrow> exn + jsval" where
  "get_prop JUndefined k = Inl TypeError"
| "get_prop JNull k = Inl TypeError"
| "get_prop (JObj ps) k = Inr (case map_of ps k of None \<Rightarrow> JUndefined | Some v \<Rightarrow> v)"
| "get_prop v k = Inr JUndefined"

text \<open>\<^verbatim>\<open>v?.k\<close>\<close>

fun opt_get :: "jsval \<Rightarrow> jsstring \<Rightarrow> jsval" where
  "opt_get JUndefined k = JUndefined"
| "opt_get JNull k = JUndefined"
| "opt_get (JObj ps) k = (case map_of ps k of None \<Rightarrow> JUndefined | Some v \<Rightarrow> v)"
| "opt_get v k = JUndefined"

text \<open>
  \<^verbatim>\<open>r[i]\<close> for an index \<open>i\<close>: an element of an array, a code unit of a string, the
  property named by the digits of \<open>i\<close> of an object; out of range is \<^verbatim>\<open>undefined\<close>.
\<close>

fun get_index :: "jsval \<Rightarrow> nat \<Rightarrow> exn + jsval" where
  "get_index JUndefined i = Inl TypeError"
| "get_index JNull i = Inl TypeError"
| "get_index (JArr xs) i = Inr (if i < length xs then xs ! i else JUndefined)"
| "get_index (JStr s) i = Inr (if i < length s then JStr [s ! i] else JUndefined)"
| "get_index (JObj ps) i =
     Inr (case map_of ps (decimal i) of None \<Rightarrow> JUndefined | Some v \<Rightarrow> v)"
| "get_index v i = Inr JUndefined"

text \<open>
  The receiver of \<^verbatim>\<open>.map\<close> and \<^verbatim>\<open>.forEach\<close>: only an array has these methods; on
  anything else the call raises (no method, or a property that is not callable).
\<close>

fun array_receiver :: "jsval \<Rightarrow> exn + jsval list" where
  "array_receiver (JArr xs) = Inr xs"
| "array_receiver v = Inl TypeError"

text \<open>
  ToString (ECMA-262, 7.1.17), as a template literal, \<^verbatim>\<open>String(v)\<close> and a computed
  property name apply it. An array prints its elements joined by commas, \<^verbatim>\<open>null\<close> and
  \<^verbatim>\<open>undefined\<close> elements as nothing. A parsed object prints as \<^verbatim>\<open>[object Object]\<close>,
  unless it has an own property \<^verbatim>\<open>toString\<close>, which is data and not callable: then
  the conversion finds no primitive and raises.
\<close>

fun ToString :: "runtime \<Rightarrow> jsval \<Rightarrow> exn + jsstring"
  and join_elems :: "runtime \<Rightarrow> jsval list \<Rightarrow> exn + jsstring" where
  "ToString rt JUndefined = Inr (str ''undefined'')"
| "ToString rt JNull = Inr (str ''null'')"
| "ToString rt (JBool b) = Inr (if b then str ''true'' else str ''false'')"
| "ToString rt (JNum x) = Inr (number_to_string rt x)"
| "ToString rt (JStr s) = Inr s"
| "ToString rt (JArr xs) = join_elems rt xs"
| "ToString rt (JObj ps) =
     (if map_of ps (str ''toString'') \<noteq> None then Inl TypeError
      else Inr (str ''[object Object]''))"
| "join_elems rt [] = Inr []"
| "join_elems rt (x # xs) =
     and_then (if x = JUndefined \<or> x = JNull then Inr [] else ToString rt x) (\<lambda>a.
       if xs = [] then Inr a
       else and_then (join_elems rt xs) (\<lambda>b. Inr (a @ str '','' @ b)))"

text \<open>\<^verbatim>\<open>xs.map((s, i) => f)\<close> where the callback may raise: the first exception ends the loop.\<close>

fun map_index :: "(nat \<Rightarrow> 'a \<Rightarrow> exn + 'b) \<Rightarrow> nat \<Rightarrow> 'a list \<Rightarrow> exn + 'b list" where
  "map_index f i [] = Inr []"
| "map_index f i (x # xs) =
     and_then (f i x) (\<lambda>y. and_then (map_index f (Suc i) xs) (\<lambda>ys. Inr (y # ys)))"

section \<open>Helpers of the widget\<close>

subsection \<open>formatAssistantText\<close>

text \<open>
  The callback of \<^verbatim>\<open>steps.map\<close>, the same text in both versions:
  \<^verbatim>\<open>(s, i) => `${i + 1}. ${s.title}`\<close>.
\<close>

definition step_line :: "runtime \<Rightarrow> nat \<Rightarrow> jsval \<Rightarrow> exn + jsstring" where
  "step_line rt i s =
     and_then (get_prop s (str ''title'')) (\<lambda>t.
     and_then (ToString rt t) (\<lambda>ts.
       Inr (decimal (i + 1) @ str ''. '' @ ts)))"

text \<open>
  \<^verbatim>\<open>App.tsx\<close>, lines 662 to 674. The result has type \<^verbatim>\<open>any\<close>: the trustbot branch
  returns \<^verbatim>\<open>data.answer\<close> itself when it is truthy, string or not.
\<close>

definition formatAssistantText :: "runtime \<Rightarrow> jsval \<Rightarrow> exn + jsval" where
  "formatAssistantText rt data =
     (if opt_get data (str ''kind'') = JStr (str ''navigator'') then
        and_then (get_prop data (str ''answer'')) (\<lambda>answer.
        let title = or_else answer (JStr (str ''Here are the recommended steps:'')) in
        and_then (get_prop data (str ''steps'')) (\<lambda>steps_prop.
        and_then (array_receiver (or_else steps_prop (JArr []))) (\<lambda>ss.
        and_then (map_index (step_line rt) 0 ss) (\<lambda>lines.
        let steps = join newline lines in
        and_then (ToString rt title) (\<lambda>title_s.
          Inr (JStr (title_s @ newline @ steps)))))))
      else if opt_get data (str ''kind'') = JStr (str ''trustbot'') then
        and_then (get_prop data (str ''answer'')) (\<lambda>answer.
          Inr (or_else answer (JStr (str ''Here are the results with SQL shown.''))))
      else Inr (JStr []))"

text \<open>
  \<^verbatim>\<open>unnamed/part_002\<close>, lines 379 to 389: \<^verbatim>\<open>data.kind\<close> without the optional chain,
  and a longer header.
\<close>

definition formatAssistantText_part002 :: "runtime \<Rightarrow> jsval \<Rightarrow> exn + jsval" where
  "formatAssistantText_part002 rt data =
     and_then (get_prop data (str ''kind'')) (\<lambda>kind.
     if kind = JStr (str ''navigator'') then
        and_then (get_prop data (str ''answer'')) (\<lambda>answer.
        let title = or_else answer
              (JStr (str ''Here are the recommended steps based on official sources:'')) in
        and_then (get_prop data (str ''steps'')) (\<lambda>steps_prop.
        and_then (array_receiver (or_else steps_prop (JArr []))) (\<lambda>ss.
        and_then (map_index (step_line rt) 0 ss) (\<lambda>lines.
        let steps = join newline lines in
        and_then (ToString rt title) (\<lambda>title_s.
          Inr (JStr (title_s @ newline @ steps)))))))
      else if kind = JStr (str ''trustbot'') then
        and_then (get_prop data (str ''answer'')) (\<lambda>answer.
          Inr (or_else answer (JStr (str ''Here are the results with SQL shown.''))))
      else Inr (JStr []))"

subsection \<open>formatCell and rowsToObjects\<close>

text \<open>\<^verbatim>\<open>App.tsx\<close>, lines 675 to 679.\<close>

definition formatCell :: "runtime \<Rightarrow> jsval \<Rightarrow> exn + jsstring" where
  "formatCell rt val =
     (if val = JNull \<or> val = JUndefined then Inr em_dash
      else case val of
        JNum x \<Rightarrow> Inr (number_format rt x)
      | _ \<Rightarrow> ToString rt val)"

text \<open>
  \<^verbatim>\<open>o[c] = r[i]\<close> on an object created by \<^verbatim>\<open>{}\<close>: the property is updated in place
  or added last. The name \<^verbatim>\<open>__proto__\<close> is the accessor of \<^verbatim>\<open>Object.prototype\<close>:
  assigning to it creates no own property.
\<close>

definition set_prop :: "(jsstring \<times> jsval) list \<Rightarrow> jsstring \<Rightarrow> jsval \<Rightarrow> (jsstring \<times> jsval) list" where
  "set_prop ob k v = (if k = str ''__proto__'' then ob else AList.update k v ob)"

text \<open>The body of \<^verbatim>\<open>table.columns.forEach((c, i) => (o[c] = r[i]))\<close>, from index \<open>i\<close> on.\<close>

fun forEach_column ::
  "runtime \<Rightarrow> jsval \<Rightarrow> nat \<Rightarrow> jsval list \<Rightarrow> (jsstring \<times> jsval) list \<Rightarrow> exn + (jsstring \<times> jsval) list" where
  "forEach_column rt r i [] ob = Inr ob"
| "forEach_column rt r i (c # cs) ob =
     and_then (get_index r i) (\<lambda>v.
     and_then (ToString rt c) (\<lambda>k.
       forEach_column rt r (Suc i) cs (set_prop ob k v)))"

text \<open>\<^verbatim>\<open>App.tsx\<close>, lines 680 to 687.\<close>

definition rowsToObjects :: "runtime \<Rightarrow> jsval \<Rightarrow> exn + jsval list" where
  "rowsToObjects rt table =
     (if \<not> truthy (opt_get table (str ''columns'')) \<or> \<not> truthy (opt_get table (str ''rows''))
      then Inr []
      else
        and_then (get_prop table (str ''rows'')) (\<lambda>rows.
        and_then (array_receiver rows) (\<lambda>rs.
          map_index (\<lambda>_ r.
            and_then (get_prop table (str ''columns'')) (\<lambda>columns.
            and_then (array_receiver columns) (\<lambda>cs.
            and_then (forEach_column rt r 0 cs []) (\<lambda>ob.
              Inr (JObj ob))))) 0 rs)))"

section \<open>The demo responder\<close>

subsection \<open>Regular expressions\<close>

text \<open>
  The two regular expressions of the source are alternatives of literal characters,
  \<^verbatim>\<open>\d\<close> and \<^verbatim>\<open>\d+\<close>, with the flag \<^verbatim>\<open>i\<close>. A pattern is the list of its
  alternatives, each a list of atoms.
\<close>

datatype atom = Lit char | Digit | Digits

definition lits :: "string \<Rightarrow> atom list" where
  "lits s = map Lit s"

text \<open>
  Case-insensitive comparison canonicalises both code units with \<^verbatim>\<open>toUpperCase\<close>, and
  leaves a code unit beyond ASCII alone when its upper case would be ASCII (ECMA-262,
  22.2.2.7.3). Every character of the patterns is ASCII, so a code unit matches a pattern
  character exactly when it is that ASCII character in either case.
\<close>

definition canon :: "16 word \<Rightarrow> 16 word" where
  "canon c = (if 0x61 \<le> c \<and> c \<le> 0x7A then c - 0x20 else c)"

definition is_digit :: "16 word \<Rightarrow> bool" where
  "is_digit c = (0x30 \<le> c \<and> c \<le> 0x39)"

fun match_here :: "atom list \<Rightarrow> jsstring \<Rightarrow> bool" where
  "match_here [] s = True"
| "match_here (a # as) [] = False"
| "match_here (Lit p # as) (c # cs) = (canon c = canon (of_char p) \<and> match_here as cs)"
| "match_here (Digit # as) (c # cs) = (is_digit c \<and> match_here as cs)"
| "match_here (Digits # as) (c # cs) =
     (is_digit c \<and> (match_here as cs \<or> match_here (Digits # as) cs))"

text \<open>\<^verbatim>\<open>re.test(s)\<close> for a pattern without the flags \<^verbatim>\<open>g\<close> and \<^verbatim>\<open>y\<close>: a match at any position.\<close>

fun regex_test :: "atom list list \<Rightarrow> jsstring \<Rightarrow> bool" where
  "regex_test re [] = list_ex (\<lambda>alt. match_here alt []) re"
| "regex_test re (c # cs) = (list_ex (\<lambda>alt. match_here alt (c # cs)) re \<or> regex_test re cs)"

text \<open>\<^verbatim>\<open>/die|passed away|bereave|death/i\<close>\<close>

definition bereavement_re :: "atom list list" where
  "bereavement_re = [lits ''die'', lits ''passed away'', lits ''bereave'', lits ''death'']"

text \<open>\<^verbatim>\<open>/top|average|median|quarter|q\d|amount|sum|\d+%|how many|show/i\<close>\<close>

definition aggregation_re :: "atom list list" where
  "aggregation_re = [lits ''top'', lits ''average'', lits ''median'', lits ''quarter'',
     lits ''q'' @ [Digit], lits ''amount'', lits ''sum'', [Digits] @ lits ''%'',
     lits ''how many'', lits ''show'']"

subsection \<open>mockResponse\<close>

datatype PipelinePref = Auto | Navigator | Trustbot

fun pref_string :: "PipelinePref \<Rightarrow> jsstring" where
  "pref_string Auto = str ''auto''"
| "pref_string Navigator = str ''navigator''"
| "pref_string Trustbot = str ''trustbot''"

text \<open>
  What the program takes from outside: the reply of the backend to a \<^verbatim>\<open>fetch\<close>, the
  string \<^verbatim>\<open>genId()\<close> draws from \<^verbatim>\<open>Math.random\<close> and \<^verbatim>\<open>Date.now\<close>, and the clock
  (\<^verbatim>\<open>new Date().toISOString()\<close>). A fetch is rejected with an exception (its message is
  kept), or resolves to a response with a status, whose body \<^verbatim>\<open>res.json()\<close> parses or
  rejects. \<^verbatim>\<open>res.ok\<close> is true exactly for a status from 200 to 299.
\<close>

datatype response_body = Json jsval | Unparseable jsstring

datatype fetch_result = Rejected jsstring | Response nat response_body

record world =
  fetch :: "jsstring \<Rightarrow> jsval \<Rightarrow> fetch_result"
  genId :: jsstring
  toISOString_now :: jsstring

text \<open>\<^verbatim>\<open>App.tsx\<close>, lines 690 to 735: one argument, two canned navigator payloads.\<close>

definition mockResponse :: "world \<Rightarrow> jsstring \<Rightarrow> jsval" where
  "mockResponse w q =
     (let isBereavement = regex_test bereavement_re q in
      if isBereavement then
        JObj [
          (str ''kind'', JStr (str ''navigator'')),
          (str ''answer'', JStr (str ''I'' @ apostrophe @
             str ''m sorry for your loss. Here is a simple plan after a death:'')),
          (str ''steps'', JArr [
             JObj [(str ''title'', JStr (str ''Register the death'')),
                   (str ''link'', JStr (str ''https://www.servicesaustralia.gov.au/when-someone-dies''))],
             JObj [(str ''title'', JStr (str ''Organise the funeral'')),
                   (str ''link'', JStr (str ''https://www.service.nsw.gov.au/death-and-bereavement''))],
             JObj [(str ''title'', JStr (str ''Notify people and organisations''))]]),
          (str ''evidence'', JArr [
             JObj [(str ''title'', JStr (str ''When someone dies '' @ em_dash @ str '' Services Australia'')),
                   (str ''url'', JStr (str ''https://www.servicesaustralia.gov.au/when-someone-dies'')),
                   (str ''updated_at'', JStr (str ''2025-06-01''))],
             JObj [(str ''title'', JStr (str ''Death and bereavement '' @ em_dash @ str '' Service NSW'')),
                   (str ''url'', JStr (str ''https://www.service.nsw.gov.au/'')),
                   (str ''updated_at'', JStr (str ''2025-05-12''))]]),
          (str ''confidence'', JObj [(str ''level'', JStr (str ''high'')), (str ''score'', JNum 0.86)]),
          (str ''audit_id'', JStr (genId w))]
      else
        JObj [
          (str ''kind'', JStr (str ''navigator'')),
          (str ''answer'', JStr (str ''Here'' @ apostrophe @ str ''s what to do:'')),
          (str ''steps'', JArr [
             JObj [(str ''title'', JStr (str ''Check eligibility''))],
             JObj [(str ''title'', JStr (str ''Prepare documents''))],
             JObj [(str ''title'', JStr (str ''Apply online''))]]),
          (str ''evidence'', JArr []),
          (str ''confidence'', JObj [(str ''level'', JStr (str ''medium'')), (str ''score'', JNum 0.6)]),
          (str ''audit_id'', JStr (genId w))])"

text \<open>
  \<^verbatim>\<open>unnamed/part_002\<close>, lines 407 to 439: two arguments, a trustbot payload and one
  navigator payload.
\<close>

definition mockResponse_part002 :: "world \<Rightarrow> jsstring \<Rightarrow> PipelinePref \<Rightarrow> jsval" where
  "mockResponse_part002 w q pref =
     (let wantTrust = (pref = Trustbot \<or> regex_test aggregation_re q) in
      if wantTrust then
        JObj [
          (str ''kind'', JStr (str ''trustbot'')),
          (str ''answer'', JStr (str ''Top vendor payments in 2023'' @ en_dash @ str ''24 Q2 ('' @
             greater_equal_sign @ str '' $500k).'')),
          (str ''table'', JObj [
             (str ''columns'', JArr [JStr (str ''vendor''), JStr (str ''amount''),
                JStr (str ''date''), JStr (str ''category'')]),
             (str ''rows'', JArr [
                JArr [JStr (str ''Acme Pty Ltd''), JNum 830000, JStr (str ''2024-02-13''), JStr (str ''IT'')],
                JArr [JStr (str ''Koala Tech''), JNum 790000, JStr (str ''2024-03-29''), JStr (str ''Services'')],
                JArr [JStr (str ''Wattle Solutions''), JNum 670000, JStr (str ''2024-01-19''),
                      JStr (str ''Consulting'')]])]),
          (str ''chart'', JObj [(str ''type'', JStr (str ''bar'')), (str ''x'', JStr (str ''vendor'')),
             (str ''y'', JStr (str ''amount''))]),
          (str ''sql'', JStr (str (''SELECT vendor, amount, paid_at as date, category FROM procurement_payments '' @
             ''WHERE amount >= 500000 AND quarter='' @ [CHR 0x27] @ ''2023-24 Q2'' @ [CHR 0x27] @
             '' ORDER BY amount DESC LIMIT 10;''))),
          (str ''dataset'', JObj [(str ''name'', JStr (str ''AusTender Demo'')),
             (str ''period'', JStr (str ''2023-07-01..2024-06-30'')),
             (str ''last_updated'', JStr (toISOString_now w))]),
          (str ''confidence'', JObj [(str ''level'', JStr (str ''exact'')), (str ''score'', JNum 1.0)]),
          (str ''audit_id'', JStr (genId w))]
      else
        JObj [
          (str ''kind'', JStr (str ''navigator'')),
          (str ''answer'', JStr (str (''Based on official sources, here is a simple plan to arrange home care '' @
             ''after hospital discharge:''))),
          (str ''steps'', JArr [
             JObj [(str ''title'', JStr (str ''Book a My Aged Care assessment'')),
                   (str ''link'', JStr (str ''https://www.myagedcare.gov.au/''))],
             JObj [(str ''title'', JStr (str ''Prepare medical summary & ID documents'')),
                   (str ''link'', JStr (str ''https://www.healthdirect.gov.au/''))],
             JObj [(str ''title'', JStr (str ''Explore interim respite services in your LGA''))]]),
          (str ''evidence'', JArr [
             JObj [(str ''title'', JStr (str ''Home Care Packages (My Aged Care)'')),
                   (str ''url'', JStr (str ''https://www.myagedcare.gov.au/home-care-package'')),
                   (str ''updated_at'', JStr (str ''2025-06-01'')), (str ''similarity'', JNum 0.82)],
             JObj [(str ''title'', JStr (str ''Carer Allowance (Services Australia)'')),
                   (str ''url'', JStr (str ''https://www.servicesaustralia.gov.au/carer-allowance'')),
                   (str ''updated_at'', JStr (str ''2025-05-12'')), (str ''similarity'', JNum 0.76)]]),
          (str ''confidence'', JObj [(str ''level'', JStr (str ''high'')), (str ''score'', JNum 0.84)]),
          (str ''audit_id'', JStr (genId w))])"

section \<open>The conversation controller\<close>

subsection \<open>State\<close>

datatype role = User | Assistant | System

text \<open>
  \<^verbatim>\<open>ChatItem\<close>. The content is declared a string, but \<^verbatim>\<open>send\<close> stores the result of
  \<^verbatim>\<open>formatAssistantText\<close>, of type \<^verbatim>\<open>any\<close>, unconverted. No payload is \<open>None\<close>.
\<close>

record ChatItem =
  role :: role
  content :: jsval
  payload :: "jsval option"

text \<open>The state hooks of the component: three persisted settings and four session values.\<close>

record app =
  apiBase :: jsstring
  demoMode :: bool
  pipelinePref :: PipelinePref
  busy :: bool
  error :: "jsstring option"
  query :: jsstring
  messages :: "ChatItem list"

subsection \<open>Effects\<close>

text \<open>
  \<^verbatim>\<open>send\<close> is a sequence of state-setter calls around one outbound call. Its effects are
  listed in program order, and the state after the call is the state before with the
  effects applied in that order. Every updater passed to \<^verbatim>\<open>setMessages\<close> has the form
  \<^verbatim>\<open>(m) => [...m, items]\<close>: the effect carries the items, or the exception their
  evaluation raises. React runs an updater when it renders, outside the \<^verbatim>\<open>try\<close> block
  of \<^verbatim>\<open>send\<close>: an exception there is not caught by \<^verbatim>\<open>send\<close>, the render fails
  (the result \<open>Inl\<close> of \<open>run\<close>). The delay of the demo responder (\<^verbatim>\<open>setTimeout\<close>) takes
  time and changes nothing.
\<close>

datatype request =
    MockCall jsstring "PipelinePref option"
  | FetchCall jsstring jsval

datatype effect =
    SetError "jsstring option"
  | SetQuery jsstring
  | AppendMessages "exn + ChatItem list"
  | SetBusy bool
  | Dispatch request

fun apply_effect :: "effect \<Rightarrow> app \<Rightarrow> exn + app" where
  "apply_effect (SetError e) st = Inr (st\<lparr>error := e\<rparr>)"
| "apply_effect (SetQuery q) st = Inr (st\<lparr>query := q\<rparr>)"
| "apply_effect (AppendMessages (Inr items)) st = Inr (st\<lparr>messages := messages st @ items\<rparr>)"
| "apply_effect (AppendMessages (Inl e)) st = Inl e"
| "apply_effect (SetBusy b) st = Inr (st\<lparr>busy := b\<rparr>)"
| "apply_effect (Dispatch r) st = Inr st"

fun run :: "effect list \<Rightarrow> app \<Rightarrow> exn + app" where
  "run [] st = Inr st"
| "run (e # es) st = and_then (apply_effect e st) (run es)"

text \<open>Reading a trace: the requests it dispatches and the entries it appends to the transcript.\<close>

definition requests :: "effect list \<Rightarrow> request list" where
  "requests es = concat (map (\<lambda>e. case e of Dispatch r \<Rightarrow> [r] | _ \<Rightarrow> []) es)"

definition appended :: "effect list \<Rightarrow> ChatItem list" where
  "appended es =
     concat (map (\<lambda>e. case e of AppendMessages (Inr items) \<Rightarrow> items | _ \<Rightarrow> []) es)"

subsection \<open>send\<close>

definition user_item :: "jsstring \<Rightarrow> ChatItem" where
  "user_item t = \<lparr>role = User, content = JStr t, payload = None\<rparr>"

definition error_item :: ChatItem where
  "error_item = \<lparr>role = Assistant,
     content = JStr (str ''Sorry, something went wrong. Please try again.''),
     payload = Some (JObj [(str ''kind'', JStr (str ''error''))])\<rparr>"

definition summary_prompt_item :: ChatItem where
  "summary_prompt_item = \<lparr>role = Assistant,
     content = JStr (str ''Would you like a quick summary of the steps?''),
     payload = Some (JObj [(str ''kind'', JStr (str ''summary_prompt''))])\<rparr>"

text \<open>
  The \<^verbatim>\<open>catch\<close> block, for an exception with message \<open>msg\<close>:
  \<^verbatim>\<open>setError(e.message || "Request failed")\<close>, then the error entry.
\<close>

definition catch_block :: "jsstring \<Rightarrow> effect list" where
  "catch_block msg =
     [SetError (Some (if msg \<noteq> [] then msg else str ''Request failed'')),
      AppendMessages (Inr [error_item])]"

text \<open>\<^verbatim>\<open>App.tsx\<close>, lines 245 to 257: the reply, and the follow-up for the kind navigator.\<close>

definition reply_effects :: "runtime \<Rightarrow> jsval \<Rightarrow> effect list" where
  "reply_effects rt data =
     [AppendMessages
        (and_then (formatAssistantText rt data) (\<lambda>c.
           Inr (\<lparr>role = Assistant, content = c, payload = Some data\<rparr> #
                (if opt_get data (str ''kind'') = JStr (str ''navigator'')
                 then [summary_prompt_item] else []))))]"

text \<open>\<^verbatim>\<open>unnamed/part_002\<close>, line 84: the reply alone.\<close>

definition reply_effects_part002 :: "runtime \<Rightarrow> jsval \<Rightarrow> effect list" where
  "reply_effects_part002 rt data =
     [AppendMessages
        (and_then (formatAssistantText_part002 rt data) (\<lambda>c.
           Inr [\<lparr>role = Assistant, content = c, payload = Some data\<rparr>]))]"

text \<open>The body of the request: \<^verbatim>\<open>{ query: text }\<close>, with \<^verbatim>\<open>force_kind\<close> unless the preference is auto.\<close>

definition request_payload :: "jsstring \<Rightarrow> PipelinePref \<Rightarrow> jsval" where
  "request_payload t pref =
     JObj ((str ''query'', JStr t) #
           (if pref \<noteq> Auto then [(str ''force_kind'', JStr (pref_string pref))] else []))"

text \<open>
  \<^verbatim>\<open>App.tsx\<close>, lines 218 to 271. \<open>payloadQuery\<close> is the optional argument. The
  request is a POST of the JSON text of the payload to \<^verbatim>\<open>${apiBase}/chat/query\<close>.
\<close>

definition send_effects :: "runtime \<Rightarrow> world \<Rightarrow> jsstring option \<Rightarrow> app \<Rightarrow> effect list" where
  "send_effects rt w payloadQuery st =
     (let text = trim (case payloadQuery of None \<Rightarrow> query st | Some p \<Rightarrow> p) in
      if text = [] \<or> busy st then []
      else
        [SetError None, SetQuery [], AppendMessages (Inr [user_item text]), SetBusy True] @
        (let payload = request_payload text (pipelinePref st) in
         if demoMode st then
           Dispatch (MockCall text None) # reply_effects rt (mockResponse w text)
         else
           Dispatch (FetchCall (apiBase st @ str ''/chat/query'') payload) #
           (case fetch w (apiBase st @ str ''/chat/query'') payload of
              Rejected msg \<Rightarrow> catch_block msg
            | Response status body \<Rightarrow>
                if \<not> (200 \<le> status \<and> status \<le> 299)
                then catch_block (str ''HTTP '' @ decimal status)
                else (case body of
                        Unparseable msg \<Rightarrow> catch_block msg
                      | Json data \<Rightarrow> reply_effects rt data))) @
        [SetBusy False])"

definition send :: "runtime \<Rightarrow> world \<Rightarrow> jsstring option \<Rightarrow> app \<Rightarrow> exn + app" where
  "send rt w payloadQuery st = run (send_effects rt w payloadQuery st) st"

text \<open>\<^verbatim>\<open>unnamed/part_002\<close>, lines 57 to 91: no argument, the preference passed to the demo responder.\<close>

definition send_effects_part002 :: "runtime \<Rightarrow> world \<Rightarrow> app \<Rightarrow> effect list" where
  "send_effects_part002 rt w st =
     (if trim (query st) = [] \<or> busy st then []
      else
        (let userQ = trim (query st) in
         [SetError None, SetQuery [], AppendMessages (Inr [user_item userQ]), SetBusy True] @
         (let payload = request_payload userQ (pipelinePref st) in
          if demoMode st then
            Dispatch (MockCall userQ (Some (pipelinePref st))) #
            reply_effects_part002 rt (mockResponse_part002 w userQ (pipelinePref st))
          else
            Dispatch (FetchCall (apiBase st @ str ''/chat/query'') payload) #
            (case fetch w (apiBase st @ str ''/chat/query'') payload of
               Rejected msg \<Rightarrow> catch_block msg
             | Response status body \<Rightarrow>
                 if \<not> (200 \<le> status \<and> status \<le> 299)
                 then catch_block (str ''HTTP '' @ decimal status)
                 else (case body of
                         Unparseable msg \<Rightarrow> catch_block msg
                       | Json data \<Rightarrow> reply_effects_part002 rt data))) @
         [SetBusy False]))"

definition send_part002 :: "runtime \<Rightarrow> world \<Rightarrow> app \<Rightarrow> exn + app" where
  "send_part002 rt w st = run (send_effects_part002 rt w st) st"

section \<open>Reading payloads\<close>

text \<open>
  What the properties below observe of a payload: the rows of its table, the titles of its
  steps, and, for a payload shaped as the data model of the specification says (an answer
  that is absent or a string, steps that are absent or a list of objects with a string
  title), the answer \<open>a\<close> and the titles \<open>ts\<close>.
\<close>

definition table_rows :: "jsval \<Rightarrow> jsval list" where
  "table_rows p =
     (case opt_get (opt_get p (str ''table'')) (str ''rows'') of JArr rs \<Rightarrow> rs | _ \<Rightarrow> [])"

definition step_titles :: "jsval \<Rightarrow> jsval list" where
  "step_titles p =
     (case opt_get p (str ''steps'') of
        JArr ss \<Rightarrow> map (\<lambda>s. opt_get s (str ''title'')) ss
      | _ \<Rightarrow> [])"

definition answer_is :: "jsval \<Rightarrow> jsstring option \<Rightarrow> bool" where
  "answer_is data a =
     (case a of
        None \<Rightarrow> opt_get data (str ''answer'') = JUndefined \<or> opt_get data (str ''answer'') = JNull
      | Some s \<Rightarrow> opt_get data (str ''answer'') = JStr s)"

definition steps_are :: "jsval \<Rightarrow> jsstring list \<Rightarrow> bool" where
  "steps_are data ts =
     (case opt_get data (str ''steps'') of
        JUndefined \<Rightarrow> ts = []
      | JNull \<Rightarrow> ts = []
      | JArr ss \<Rightarrow> list_all2 (\<lambda>s t. opt_get s (str ''title'') = JStr t) ss ts
      | _ \<Rightarrow> False)"

text \<open>The numbered plain-text list of titles: \<^verbatim>\<open>1. first\<close>, \<^verbatim>\<open>2. second\<close>, one per line.\<close>

definition numbered :: "jsstring list \<Rightarrow> jsstring" where
  "numbered ts = join newline (map (\<lambda>(i, t). decimal (i + 1) @ str ''. '' @ t) (enumerate 0 ts))"

text \<open>
  The specification's words, "the narrative answer, or a generic text if absent", and the
  reading the code implements with \<^verbatim>\<open>||\<close>: the generic text also replaces an empty answer.
\<close>

definition answer_or_if_absent :: "jsstring option \<Rightarrow> jsstring \<Rightarrow> jsstring" where
  "answer_or_if_absent a d = (case a of None \<Rightarrow> d | Some s \<Rightarrow> s)"

definition answer_or_if_empty :: "jsstring option \<Rightarrow> jsstring \<Rightarrow> jsstring" where
  "answer_or_if_empty a d = (case a of None \<Rightarrow> d | Some s \<Rightarrow> if s = [] then d else s)"

section \<open>Concrete inputs\<close>

text \<open>A runtime, a world whose backend answers 500, and a state, for the instances below.\<close>

definition example_runtime :: runtime where
  "example_runtime = \<lparr>number_to_string = (\<lambda>x. if x = 1234567 then str ''1234567'' else str ''0''),
     number_format = (\<lambda>x. if x = 1234567 then str ''1,234,567'' else str ''0'')\<rparr>"

definition example_world :: world where
  "example_world = \<lparr>fetch = (\<lambda>url body. Response 500 (Unparseable [])),
     genId = str ''k3j9x2m1abc'', toISOString_now = str ''2025-09-01T00:00:00.000Z''\<rparr>"

definition example_app :: app where
  "example_app = \<lparr>apiBase = str ''http://localhost:8000'', demoMode = False, pipelinePref = Auto,
     busy = False, error = None, query = str '' hello '', messages = []\<rparr>"

definition example_navigator :: jsval where
  "example_navigator = JObj [(str ''kind'', JStr (str ''navigator'')),
     (str ''steps'', JArr [JObj [(str ''title'', JStr (str ''Check eligibility''))],
                           JObj [(str ''title'', JStr (str ''Apply online'')),
                                 (str ''link'', JStr (str ''https://example.org/''))]])]"

section \<open>Properties\<close>

subsection \<open>Auxiliary facts\<close>

lemma unat_of_char: "unat (of_char c :: 16 word) = of_char c"
proof -
  have eq: "(of_char c :: 16 word) = of_nat (of_char c)"
    by (simp only: of_nat_of_char)
  have "(256::nat) \<le> 2 ^ LENGTH(16)"
    by simp
  then have lt: "(of_char c :: nat) < 2 ^ LENGTH(16)"
    by (rule less_le_trans [OF nat_of_char_less_256])
  show ?thesis
    by (simp only: eq unat_of_nat mod_less [OF lt])
qed

lemma of_char_word_eq_iff: "(of_char a :: 16 word) = of_char b \<longleftrightarrow> a = b"
proof
  assume "(of_char a :: 16 word) = of_char b"
  then have "unat (of_char a :: 16 word) = unat (of_char b :: 16 word)" by (rule arg_cong)
  then have "(of_char a :: nat) = of_char b" by (simp only: unat_of_char)
  then show "a = b" by (simp only: of_char_eq_iff)
next
  assume "a = b" then show "(of_char a :: 16 word) = of_char b" by (rule arg_cong)
qed

lemma str_eq_iff [simp]: "str a = str b \<longleftrightarrow> a = b"
proof -
  have "inj (of_char :: char \<Rightarrow> 16 word)"
    by (rule injI) (simp only: of_char_word_eq_iff)
  then show ?thesis
    unfolding str_def by (simp only: inj_map_eq_map)
qed

lemma str_eq_Nil [simp]: "str s = [] \<longleftrightarrow> s = []"
  by (simp add: str_def)

lemma str_append_fold [simp]:
  "str a @ str b = str (a @ b)" "str a @ str b @ r = str (a @ b) @ r"
  by (simp_all add: str_def)

lemma and_then_simps [simp]: "and_then (Inr x) f = f x" "and_then (Inl e) f = Inl e"
  by (simp_all add: and_then_def)

lemma decimal_small [simp]:
  "decimal 1 = str ''1''" "decimal 2 = str ''2''" "decimal 3 = str ''3''"
  "decimal (Suc 0) = str ''1''" "decimal (Suc (Suc 0)) = str ''2''"
  "decimal (Suc (Suc (Suc 0))) = str ''3''"
  by (simp_all add: decimal.simps str_def)

lemma trim_example [simp]: "trim (str '' hello '') = str ''hello''"
  by (simp add: trim_def str_def is_ws_def)

lemma http_500 [simp]: "str ''HTTP '' @ decimal 500 = str ''HTTP 500''"
  by (simp add: decimal.simps str_def)

lemma appended_simps [simp]:
  "appended [] = []"
  "appended (SetError x # es) = appended es"
  "appended (SetQuery q # es) = appended es"
  "appended (SetBusy b # es) = appended es"
  "appended (Dispatch r # es) = appended es"
  "appended (AppendMessages (Inr items) # es) = items @ appended es"
  "appended (AppendMessages (Inl e) # es) = appended es"
  "appended (es @ fs) = appended es @ appended fs"
  by (simp_all add: appended_def)

lemma requests_simps [simp]:
  "requests [] = []"
  "requests (SetError x # es) = requests es"
  "requests (SetQuery q # es) = requests es"
  "requests (SetBusy b # es) = requests es"
  "requests (Dispatch r # es) = r # requests es"
  "requests (AppendMessages m # es) = requests es"
  "requests (es @ fs) = requests es @ requests fs"
  by (simp_all add: requests_def)

lemma requests_catch_block [simp]: "requests (catch_block m) = []"
  by (simp add: catch_block_def)

lemma requests_reply [simp]:
  "requests (reply_effects rt d) = []" "requests (reply_effects_part002 rt d) = []"
  by (simp_all add: reply_effects_def reply_effects_part002_def)

lemma users_catch_block [simp]: "filter (\<lambda>i. role i = User) (appended (catch_block m)) = []"
  by (simp add: catch_block_def error_item_def)

lemma users_reply [simp]:
  "filter (\<lambda>i. role i = User) (appended (reply_effects rt d)) = []"
  "filter (\<lambda>i. role i = User) (appended (reply_effects_part002 rt d)) = []"
  by (cases "formatAssistantText rt d"; cases "formatAssistantText_part002 rt d";
      simp add: reply_effects_def reply_effects_part002_def and_then_def summary_prompt_item_def)+

subsection \<open>The guard of send\<close>

text \<open>
  C4. In a state whose busy flag is set, or whose effective text (the argument, else the
  input buffer) is empty after trimming, \<^verbatim>\<open>send\<close> has no effect at all: no setter is
  called, no request is dispatched, and the state (transcript, error slot, input buffer)
  is the one before. This holds for \<^verbatim>\<open>send\<close> of both versions.
\<close>

theorem send_noop:
  "(busy st \<or> trim (case payloadQuery of None \<Rightarrow> query st | Some p \<Rightarrow> p) = [] \<longrightarrow>
      send_effects rt w payloadQuery st = [] \<and> send rt w payloadQuery st = Inr st) \<and>
   (busy st \<or> trim (query st) = [] \<longrightarrow>
      send_effects_part002 rt w st = [] \<and> send_part002 rt w st = Inr st)"
  by (auto simp: send_effects_def send_def send_effects_part002_def send_part002_def Let_def)

theorem send_noop_witness:
  "busy (example_app\<lparr>busy := True\<rparr>) \<and>
   send_effects example_runtime example_world None (example_app\<lparr>busy := True\<rparr>) = [] \<and>
   send example_runtime example_world None (example_app\<lparr>busy := True\<rparr>)
     = Inr (example_app\<lparr>busy := True\<rparr>) \<and>
   send_effects_part002 example_runtime example_world (example_app\<lparr>busy := True\<rparr>) = [] \<and>
   send_part002 example_runtime example_world (example_app\<lparr>busy := True\<rparr>)
     = Inr (example_app\<lparr>busy := True\<rparr>) \<and>
   trim (str ''  '') = [] \<and>
   send example_runtime example_world (Some (str ''  '')) example_app = Inr example_app"
  using send_noop [of "example_app\<lparr>busy := True\<rparr>" None example_runtime example_world]
    send_noop [of example_app "Some (str ''  '')" example_runtime example_world]
  by (simp add: example_app_def trim_def str_def is_ws_def)

subsection \<open>The user entry and the request\<close>



subsection \<open>Transport failures\<close>



subsection \<open>Facts about the demo responder\<close>

lemma kind_mockResponse: "opt_get (mockResponse w q) (str ''kind'') = JStr (str ''navigator'')"
  by (simp add: mockResponse_def Let_def)

lemma kind_mockResponse_part002:
  "opt_get (mockResponse_part002 w q pref) (str ''kind'') =
     JStr (if pref = Trustbot \<or> regex_test aggregation_re q then str ''trustbot'' else str ''navigator'')"
  by (simp add: mockResponse_part002_def Let_def)

lemma table_rows_mockResponse: "table_rows (mockResponse w q) = []"
  by (simp add: mockResponse_def Let_def table_rows_def)

lemma table_rows_mockResponse_part002:
  "pref = Trustbot \<or> regex_test aggregation_re q \<Longrightarrow>
   length (table_rows (mockResponse_part002 w q pref)) = 3"
  by (simp add: mockResponse_part002_def Let_def table_rows_def)

lemma step_titles_mockResponse:
  "step_titles (mockResponse w q) =
     (if regex_test bereavement_re q
      then [JStr (str ''Register the death''), JStr (str ''Organise the funeral''),
            JStr (str ''Notify people and organisations'')]
      else [JStr (str ''Check eligibility''), JStr (str ''Prepare documents''),
            JStr (str ''Apply online'')])"
  by (simp add: mockResponse_def Let_def step_titles_def)

lemma step_titles_mockResponse_part002:
  "step_titles (mockResponse_part002 w q pref) =
     (if pref = Trustbot \<or> regex_test aggregation_re q then []
      else [JStr (str ''Book a My Aged Care assessment''),
            JStr (str ''Prepare medical summary & ID documents''),
            JStr (str ''Explore interim respite services in your LGA'')])"
  by (simp add: mockResponse_part002_def Let_def step_titles_def)

lemma show_top_matches:
  "regex_test aggregation_re (str ''show top vendor payments this quarter'')"
  by (simp add: aggregation_re_def lits_def str_def canon_def is_digit_def)

lemma dies_matches: "regex_test bereavement_re (str ''what to do when someone dies'')"
  by (simp add: bereavement_re_def lits_def str_def canon_def)

lemma dies_no_aggregation: "\<not> regex_test aggregation_re (str ''what to do when someone dies'')"
  by (simp add: aggregation_re_def lits_def str_def canon_def is_digit_def)

lemma hello_no_aggregation: "\<not> regex_test aggregation_re (str ''hello'')"
  by (simp add: aggregation_re_def lits_def str_def canon_def is_digit_def)

lemma hello_not_bereavement: "\<not> regex_test bereavement_re (str ''hello'')"
  by (simp add: bereavement_re_def lits_def str_def canon_def)

lemma format_mockResponse_generic:
  "\<not> regex_test bereavement_re q \<Longrightarrow>
   formatAssistantText rt (mockResponse w q) =
     Inr (JStr (str ''Here'' @ apostrophe @ str ''s what to do:'' @ newline @
                str ''1. Check eligibility'' @ newline @
                str ''2. Prepare documents'' @ newline @
                str ''3. Apply online''))"
  by (simp add: mockResponse_def Let_def formatAssistantText_def step_line_def or_else_def
      apostrophe_def newline_def)

lemma format_mockResponse_bereavement:
  "regex_test bereavement_re q \<Longrightarrow>
   formatAssistantText rt (mockResponse w q) =
     Inr (JStr (str ''I'' @ apostrophe @
                str ''m sorry for your loss. Here is a simple plan after a death:'' @ newline @
                str ''1. Register the death'' @ newline @
                str ''2. Organise the funeral'' @ newline @
                str ''3. Notify people and organisations''))"
  by (simp add: mockResponse_def Let_def formatAssistantText_def step_line_def or_else_def
      apostrophe_def newline_def)

subsection \<open>Facts about formatAssistantText\<close>

lemma get_prop_of_opt_get: "opt_get s k = JStr t \<Longrightarrow> get_prop s k = Inr (JStr t)"
  by (cases s) simp_all

lemma get_prop_kind: "opt_get d k = JStr t \<Longrightarrow> get_prop d k' = Inr (opt_get d k')"
  by (cases d) simp_all

lemma step_line_title:
  "opt_get s (str ''title'') = JStr t \<Longrightarrow> step_line rt i s = Inr (decimal (i + 1) @ str ''. '' @ t)"
  by (simp add: step_line_def get_prop_of_opt_get del: str_append_fold)

lemma map_index_titles:
  "list_all2 (\<lambda>s t. opt_get s (str ''title'') = JStr t) ss ts \<Longrightarrow>
   map_index (step_line rt) i ss =
     Inr (map (\<lambda>(i, t). decimal (i + 1) @ str ''. '' @ t) (enumerate i ts))"
proof (induction ss ts arbitrary: i rule: list_all2_induct)
  case Nil
  then show ?case by simp
next
  case (Cons s ss t ts)
  from Cons.hyps(1) have "step_line rt i s = Inr (decimal (i + 1) @ str ''. '' @ t)"
    by (rule step_line_title)
  with Cons.IH [of "Suc i"] show ?case
    by simp
qed

lemma steps_lines:
  assumes "steps_are data ts"
  shows "\<exists>ss. array_receiver (or_else (opt_get data (str ''steps'')) (JArr [])) = Inr ss \<and>
           map_index (step_line rt) 0 ss =
             Inr (map (\<lambda>(i, t). decimal (i + 1) @ str ''. '' @ t) (enumerate 0 ts))"
proof (cases "opt_get data (str ''steps'')")
  case (JArr ss)
  with assms have "list_all2 (\<lambda>s t. opt_get s (str ''title'') = JStr t) ss ts"
    by (simp add: steps_are_def)
  then show ?thesis
    using JArr by (simp add: or_else_def map_index_titles)
qed (use assms in \<open>simp_all add: steps_are_def or_else_def\<close>)

lemma title_value:
  "answer_is data a \<Longrightarrow>
   or_else (opt_get data (str ''answer'')) (JStr d) = JStr (answer_or_if_empty a d)"
  by (auto simp: answer_is_def or_else_def answer_or_if_empty_def split: option.splits)

lemma navigator_text:
  assumes "opt_get data (str ''kind'') = JStr (str ''navigator'')"
    and "answer_is data a" and "steps_are data ts"
  shows "formatAssistantText rt data =
           Inr (JStr (answer_or_if_empty a (str ''Here are the recommended steps:'') @ newline @ numbered ts))"
    and "formatAssistantText_part002 rt data =
           Inr (JStr (answer_or_if_empty a
             (str ''Here are the recommended steps based on official sources:'') @ newline @ numbered ts))"
proof -
  note g = get_prop_kind [OF assms(1)]
  from steps_lines [OF assms(3), of rt] obtain ss where
    ss: "array_receiver (or_else (opt_get data (str ''steps'')) (JArr [])) = Inr ss"
      "map_index (step_line rt) 0 ss =
         Inr (map (\<lambda>(i, t). decimal (i + 1) @ str ''. '' @ t) (enumerate 0 ts))"
    by blast
  show "formatAssistantText rt data =
           Inr (JStr (answer_or_if_empty a (str ''Here are the recommended steps:'') @ newline @ numbered ts))"
    unfolding formatAssistantText_def
    by (simp add: assms(1) g Let_def ss title_value [OF assms(2)] numbered_def)
  show "formatAssistantText_part002 rt data =
           Inr (JStr (answer_or_if_empty a
             (str ''Here are the recommended steps based on official sources:'') @ newline @ numbered ts))"
    unfolding formatAssistantText_part002_def
    by (simp add: assms(1) g Let_def ss title_value [OF assms(2)] numbered_def)
qed

lemma trustbot_text:
  assumes "opt_get data (str ''kind'') = JStr (str ''trustbot'')" and "answer_is data a"
  shows "formatAssistantText rt data =
           Inr (JStr (answer_or_if_empty a (str ''Here are the results with SQL shown.'')))"
    and "formatAssistantText_part002 rt data =
           Inr (JStr (answer_or_if_empty a (str ''Here are the results with SQL shown.'')))"
  unfolding formatAssistantText_def formatAssistantText_part002_def
  by (simp_all add: assms(1) get_prop_kind [OF assms(1)] title_value [OF assms(2)])

lemma other_text:
  assumes "opt_get data (str ''kind'') \<noteq> JStr (str ''navigator'')"
    and "opt_get data (str ''kind'') \<noteq> JStr (str ''trustbot'')"
  shows "formatAssistantText rt data = Inr (JStr [])"
    and "data \<noteq> JNull \<Longrightarrow> data \<noteq> JUndefined \<Longrightarrow> formatAssistantText_part002 rt data = Inr (JStr [])"
  using assms unfolding formatAssistantText_def formatAssistantText_part002_def
  by (cases data; simp)+

lemma format_trustbot_only:
  "formatAssistantText rt (JObj [(str ''kind'', JStr (str ''trustbot''))]) =
     Inr (JStr (str ''Here are the results with SQL shown.''))"
  "opt_get (JObj [(str ''kind'', JStr (str ''trustbot''))]) (str ''kind'') \<noteq> JStr (str ''navigator'')"
  by (simp_all add: formatAssistantText_def and_then_def or_else_def)

subsection \<open>The follow-up entry\<close>




subsection \<open>Routing of the demo responder\<close>

text \<open>
  C1, as amended. For a query that matches the aggregation pattern, under the preference
  auto, \<^verbatim>\<open>mockResponse\<close> of \<^verbatim>\<open>unnamed/part_002\<close> returns a payload of kind trustbot
  whose table has rows. \<^verbatim>\<open>mockResponse\<close> of \<^verbatim>\<open>App.tsx\<close> has no trustbot branch: its
  payload has the kind navigator and no table, for every query.
\<close>

theorem aggregation_query_by_version:
  "(regex_test aggregation_re q \<longrightarrow>
      opt_get (mockResponse_part002 w q Auto) (str ''kind'') = JStr (str ''trustbot'') \<and>
      table_rows (mockResponse_part002 w q Auto) \<noteq> []) \<and>
   opt_get (mockResponse w q) (str ''kind'') = JStr (str ''navigator'') \<and>
   table_rows (mockResponse w q) = []"
  using table_rows_mockResponse_part002 [of Auto q w]
  by (auto simp: kind_mockResponse kind_mockResponse_part002 table_rows_mockResponse)

theorem aggregation_query_by_version_witness:
  "regex_test aggregation_re (str ''show top vendor payments this quarter'') \<and>
   opt_get (mockResponse_part002 example_world (str ''show top vendor payments this quarter'') Auto)
     (str ''kind'') = JStr (str ''trustbot'') \<and>
   table_rows (mockResponse_part002 example_world (str ''show top vendor payments this quarter'') Auto)
     \<noteq> []"
  using aggregation_query_by_version [of "str ''show top vendor payments this quarter''" example_world]
  by (simp add: show_top_matches)

text \<open>
  C1 as stated fails on \<^verbatim>\<open>App.tsx\<close>: the example query of the specification matches
  the aggregation pattern and gets a navigator payload without table.
\<close>

theorem aggregation_query_App_navigator:
  "regex_test aggregation_re (str ''show top vendor payments this quarter'') \<and>
   opt_get (mockResponse example_world (str ''show top vendor payments this quarter'')) (str ''kind'')
     = JStr (str ''navigator'') \<and>
   JStr (str ''navigator'') \<noteq> JStr (str ''trustbot'') \<and>
   table_rows (mockResponse example_world (str ''show top vendor payments this quarter'')) = []"
  by (simp add: show_top_matches kind_mockResponse table_rows_mockResponse)

text \<open>
  C7, as amended. For a query that matches the bereavement pattern, \<^verbatim>\<open>mockResponse\<close> of
  \<^verbatim>\<open>App.tsx\<close> returns a payload of kind navigator whose first step has the title
  \<^verbatim>\<open>Register the death\<close>. \<^verbatim>\<open>mockResponse\<close> of \<^verbatim>\<open>unnamed/part_002\<close> has no bereavement
  branch: the first step of its payload is never that one, for any query and preference.
\<close>

theorem bereavement_query_by_version:
  "(regex_test bereavement_re q \<longrightarrow>
      opt_get (mockResponse w q) (str ''kind'') = JStr (str ''navigator'') \<and>
      take 1 (step_titles (mockResponse w q)) = [JStr (str ''Register the death'')]) \<and>
   take 1 (step_titles (mockResponse_part002 w q pref)) \<noteq> [JStr (str ''Register the death'')]"
  by (simp add: kind_mockResponse step_titles_mockResponse step_titles_mockResponse_part002)

theorem bereavement_query_by_version_witness:
  "regex_test bereavement_re (str ''what to do when someone dies'') \<and>
   opt_get (mockResponse example_world (str ''what to do when someone dies'')) (str ''kind'')
     = JStr (str ''navigator'') \<and>
   take 1 (step_titles (mockResponse example_world (str ''what to do when someone dies'')))
     = [JStr (str ''Register the death'')]"
  using bereavement_query_by_version [of "str ''what to do when someone dies''" example_world Auto]
  by (simp add: dies_matches)

text \<open>
  C7 as stated fails on \<^verbatim>\<open>unnamed/part_002\<close>: the example query of the specification
  matches the bereavement pattern and gets the home care plan.
\<close>

theorem bereavement_query_part002_first_step:
  "regex_test bereavement_re (str ''what to do when someone dies'') \<and>
   take 1 (step_titles (mockResponse_part002 example_world (str ''what to do when someone dies'') Auto))
     = [JStr (str ''Book a My Aged Care assessment'')] \<and>
   JStr (str ''Book a My Aged Care assessment'') \<noteq> JStr (str ''Register the death'')"
  by (simp add: dies_matches dies_no_aggregation step_titles_mockResponse_part002)

text \<open>
  C2, as amended. In \<^verbatim>\<open>unnamed/part_002\<close> the preference trustbot forces the kind
  trustbot for every query; under auto the aggregation pattern decides (trustbot on a
  match, navigator otherwise); under navigator a query that does not match gets the kind
  navigator. In \<^verbatim>\<open>App.tsx\<close> the demo branch of \<^verbatim>\<open>send\<close> calls \<^verbatim>\<open>mockResponse\<close> with the text
  alone, and the payload has the kind navigator for every query.
\<close>

theorem forced_kind_by_version:
  "opt_get (mockResponse_part002 w q Trustbot) (str ''kind'') = JStr (str ''trustbot'') \<and>
   opt_get (mockResponse_part002 w q Auto) (str ''kind'') =
     (if regex_test aggregation_re q then JStr (str ''trustbot'') else JStr (str ''navigator'')) \<and>
   (\<not> regex_test aggregation_re q \<longrightarrow>
      opt_get (mockResponse_part002 w q Navigator) (str ''kind'') = JStr (str ''navigator'')) \<and>
   opt_get (mockResponse w q) (str ''kind'') = JStr (str ''navigator'') \<and>
   (\<not> busy st \<and> demoMode st \<and> t = trim (case payloadQuery of None \<Rightarrow> query st | Some p \<Rightarrow> p)
      \<and> t \<noteq> [] \<longrightarrow> requests (send_effects rt w payloadQuery st) = [MockCall t None])"
  by (simp add: kind_mockResponse kind_mockResponse_part002 send_effects_def Let_def)

theorem forced_kind_by_version_witness:
  "\<not> regex_test aggregation_re (str ''hello'') \<and>
   opt_get (mockResponse_part002 example_world (str ''hello'') Trustbot) (str ''kind'')
     = JStr (str ''trustbot'') \<and>
   opt_get (mockResponse_part002 example_world (str ''hello'') Auto) (str ''kind'')
     = JStr (str ''navigator'') \<and>
   opt_get (mockResponse_part002 example_world (str ''hello'') Navigator) (str ''kind'')
     = JStr (str ''navigator'') \<and>
   requests (send_effects example_runtime example_world None
     (example_app\<lparr>demoMode := True, pipelinePref := Trustbot\<rparr>)) = [MockCall (str ''hello'') None]"
  using forced_kind_by_version [of example_world "str ''hello''"
      "example_app\<lparr>demoMode := True, pipelinePref := Trustbot\<rparr>" "str ''hello''" None example_runtime]
  by (simp add: hello_no_aggregation example_app_def)

text \<open>
  C2 as stated fails: in \<^verbatim>\<open>unnamed/part_002\<close> a query that matches the aggregation
  pattern gets the kind trustbot under the preference navigator, and in \<^verbatim>\<open>App.tsx\<close>,
  under the preference trustbot, the demo responder is called with the text alone and
  answers with the kind navigator.
\<close>

theorem forced_navigator_not_honoured:
  "regex_test aggregation_re (str ''show top vendor payments this quarter'') \<and>
   opt_get (mockResponse_part002 example_world (str ''show top vendor payments this quarter'') Navigator)
     (str ''kind'') = JStr (str ''trustbot'') \<and>
   JStr (str ''trustbot'') \<noteq> JStr (str ''navigator'') \<and>
   requests (send_effects example_runtime example_world None
     (example_app\<lparr>demoMode := True, pipelinePref := Trustbot\<rparr>)) = [MockCall (str ''hello'') None] \<and>
   opt_get (mockResponse example_world (str ''hello'')) (str ''kind'') = JStr (str ''navigator'')"
  by (simp add: show_top_matches kind_mockResponse_part002 kind_mockResponse send_effects_def
      example_app_def Let_def)


subsection \<open>The fallback text\<close>


lemma numbered_example:
  "numbered [str ''Check eligibility'', str ''Apply online''] =
     str ''1. Check eligibility'' @ newline @ str ''2. Apply online''"
  by (simp add: numbered_def decimal.simps newline_def) (simp add: str_def)



subsection \<open>Tables\<close>



subsection \<open>Absent payloads\<close>

text \<open>
  C10. \<^verbatim>\<open>formatAssistantText\<close> of \<^verbatim>\<open>App.tsx\<close> returns the empty string for \<^verbatim>\<open>null\<close> and
  for \<^verbatim>\<open>undefined\<close>: it does not raise.
\<close>

theorem formatAssistantText_absent:
  "formatAssistantText rt JNull = Inr (JStr []) \<and> formatAssistantText rt JUndefined = Inr (JStr [])"
  by (simp add: formatAssistantText_def)

theorem formatAssistantText_absent_witness:
  "formatAssistantText example_runtime JNull = Inr (JStr []) \<and>
   formatAssistantText example_runtime JUndefined = Inr (JStr [])"
  using formatAssistantText_absent [of example_runtime]
  by simp

text \<open>The version of \<^verbatim>\<open>unnamed/part_002\<close> reads \<^verbatim>\<open>data.kind\<close> and raises on both.\<close>

lemma formatAssistantText_part002_absent:
  "formatAssistantText_part002 rt JNull = Inl TypeError"
  "formatAssistantText_part002 rt JUndefined = Inl TypeError"
  by (simp_all add: formatAssistantText_part002_def)


end
